theory Spec2Isabelle
  imports Main
begin

section \<open>Python values and failures\<close>

text \<open>
  The exceptions that \<^verbatim>\<open>panel_daemon\<close> and the grid walk of
  \<^verbatim>\<open>FieldPlotter.plot\<close> can raise. A result is \<open>error + 'a\<close>, with
  \<open>Inl\<close> for the raised exception.
\<close>

datatype error =
    AssertionError string
  | ValueError string
  | TypeError
  | IndexError
  | UnboundLocalError
  | Exception string
  | NameError

text \<open>
  Subscripting a Python list or tuple with an integer: an index from \<open>-len\<close> to
  \<open>-1\<close> counts from the end, anything outside \<open>-len .. len - 1\<close> raises IndexError.
\<close>

definition py_getitem :: "'a list \<Rightarrow> int \<Rightarrow> error + 'a" where
  "py_getitem xs i =
     (if 0 \<le> i \<and> i < int (length xs) then Inr (xs ! nat i)
      else if i < 0 \<and> - int (length xs) \<le> i then Inr (xs ! nat (int (length xs) + i))
      else Inl IndexError)"

text \<open>Statements in sequence: the first exception raised ends the call.\<close>

definition and_then :: "error + 'a \<Rightarrow> ('a \<Rightarrow> error + 'b) \<Rightarrow> error + 'b" where
  "and_then r f = (case r of Inl e \<Rightarrow> Inl e | Inr x \<Rightarrow> f x)"

text \<open>
  \<^verbatim>\<open>reversed(x)\<close> and \<^verbatim>\<open>tuple(x)\<close>: both raise TypeError on \<^verbatim>\<open>None\<close>;
  a Python value that is either \<^verbatim>\<open>None\<close> or a sequence is an \<open>'a list option\<close>.
\<close>

definition py_reversed :: "'a list option \<Rightarrow> error + 'a list" where
  "py_reversed x = (case x of None \<Rightarrow> Inl TypeError | Some xs \<Rightarrow> Inr (rev xs))"

definition py_tuple :: "'a list option \<Rightarrow> error + 'a list" where
  "py_tuple x = (case x of None \<Rightarrow> Inl TypeError | Some xs \<Rightarrow> Inr xs)"

text \<open>
  \<^verbatim>\<open>np.argsort\<close> on the three dimension lengths. An array this short is sorted by
  insertion, so equal lengths keep their index order (model, lead time, ensemble).
\<close>

definition argsort :: "int list \<Rightarrow> nat list" where
  "argsort v = sort_key (\<lambda>i. v ! i) [0..<length v]"

section \<open>The panel daemon\<close>

text \<open>
  The packing table of lines 122-127, a list whose entry 0 is \<^verbatim>\<open>None\<close>.
\<close>

definition conf_map :: "int list option list" where
  "conf_map = [None,
     Some [1, 1], Some [1, 2], Some [2, 2], Some [2, 2],
     Some [2, 3], Some [2, 3], Some [2, 4], Some [2, 4],
     Some [3, 3], Some [3, 4], Some [3, 4], Some [3, 4],
     Some [4, 4], Some [4, 4], Some [4, 4], Some [4, 4]]"

definition panel_limit :: int where
  "panel_limit = int (length conf_map) - 1"

text \<open>
  \<^verbatim>\<open>conf_map[k]\<close> where \<open>k\<close> was read from a position list and may be
  \<^verbatim>\<open>None\<close>: a \<^verbatim>\<open>None\<close> subscript raises TypeError.
\<close>

definition conf_map_at :: "int option \<Rightarrow> error + int option list option" where
  "conf_map_at k =
     (case k of
        None \<Rightarrow> Inl TypeError
      | Some i \<Rightarrow> map_sum id (map_option (map Some)) (py_getitem conf_map i))"

text \<open>
  Lines 72-79: an unset ensemble size is 0 when only the ensemble mean is plotted and 1
  for a deterministic forecast. Line 82: the mean panel adds one member slot.
\<close>

definition ens_size_of :: "int option \<Rightarrow> bool \<Rightarrow> int" where
  "ens_size_of ens_size plot_ens_mean =
     (case ens_size of
        None \<Rightarrow> (if plot_ens_mean then 0 else 1)
      | Some n \<Rightarrow> n)"

definition num_members_of :: "int option \<Rightarrow> bool \<Rightarrow> int" where
  "num_members_of ens_size plot_ens_mean =
     ens_size_of ens_size plot_ens_mean + (if plot_ens_mean then 1 else 0)"

text \<open>Lines 98-106: the position list \<^verbatim>\<open>[only ens mean, x, y]\<close>.\<close>

definition ens_mean_init :: "nat list \<Rightarrow> int \<Rightarrow> bool \<Rightarrow> int option list" where
  "ens_mean_init var_idx_xy num_members plot_ens_mean =
     (if plot_ens_mean then
        (if var_idx_xy ! 0 = 2 then [None, Some (num_members - 1), None]
         else if var_idx_xy ! 1 = 2 then [None, None, Some (num_members - 1)]
         else [Some 0, None, None])
      else [None, None, None])"

text \<open>Lines 113-116: the axis that receives the reference row or column.\<close>

definition ref_dim_of :: "nat list \<Rightarrow> nat" where
  "ref_dim_of var_idx_xy = (if var_idx_xy ! 0 \<noteq> 1 then 0 else 1)"

text \<open>
  The local variables \<^verbatim>\<open>panel_shape, var_idx_xy, var_len_xy, ens_mean, ref\<close>
  after line 118. \<^verbatim>\<open>panel_shape = var_len_xy\<close> binds both names to one array, so
  the increment of line 118 shows in both.
\<close>

type_synonym locals = "int list \<times> nat list \<times> int list \<times> int option list \<times> int option list"

definition assign_axes :: "int \<Rightarrow> int \<Rightarrow> int option \<Rightarrow> bool \<Rightarrow> bool \<Rightarrow> error + locals" where
  "assign_axes num_models num_lead_times ens_size plot_ens_mean include_ref =
     (let num_members = num_members_of ens_size plot_ens_mean;
          var_len = [num_models, num_lead_times, num_members]
      in if 0 \<in> set var_len then Inl (AssertionError ''Cannot deal with zero dimension'')
         else if 1 \<notin> set var_len
           then Inl (AssertionError ''At least one dimension needs length 1'')
         else
           (let var_idx = argsort var_len;
                var_idx_xy = drop (length var_idx - 2) var_idx;
                var_len_xy = map (\<lambda>i. var_len ! i) var_idx_xy;
                ens_mean = ens_mean_init var_idx_xy num_members plot_ens_mean;
                ref_dim = ref_dim_of var_idx_xy;
                ref = (if include_ref
                       then [None, None][ref_dim := Some (var_len_xy ! ref_dim)]
                       else [None, None]);
                panel_shape = (if include_ref
                       then var_len_xy[ref_dim := var_len_xy ! ref_dim + 1]
                       else var_len_xy)
            in Inr (panel_shape, var_idx_xy, panel_shape, ens_mean, ref)))"

text \<open>
  Lines 121-139, the rearrangement of a one-dimensional layout. After it
  \<^verbatim>\<open>panel_shape\<close>, \<^verbatim>\<open>ens_mean\<close> and \<^verbatim>\<open>ref\<close> are table entries, which may be
  \<^verbatim>\<open>None\<close>.
\<close>

type_synonym locals2 =
  "int list option \<times> nat list \<times> int list \<times> int option list option \<times> int option list option"

definition rearrange :: "bool \<Rightarrow> bool \<Rightarrow> locals \<Rightarrow> error + locals2" where
  "rearrange plot_ens_mean include_ref l =
     (case l of (shape, idx_xy, len_xy, em, rf) \<Rightarrow>
        if Min (set shape) < 2 then
          (if shape ! 1 > panel_limit then Inl (ValueError ''Panel limit reached!'')
           else
             and_then (if plot_ens_mean then conf_map_at (last em) else Inr (Some em))
               (\<lambda>em'.
             and_then (if include_ref then conf_map_at (last rf) else Inr (Some rf))
               (\<lambda>rf'.
             and_then (py_getitem conf_map (last shape))
               (\<lambda>shape'. Inr (shape', drop 1 idx_xy, drop 1 shape, em', rf')))))
        else Inr (Some shape, idx_xy, len_xy, Some em, Some rf))"

text \<open>The five tuples that \<^verbatim>\<open>panel_daemon\<close> returns.\<close>

record plan =
  panel_shape :: "int list"
  var_idx_xy :: "nat list"
  var_len_xy :: "int list"
  ens_mean :: "int option list"
  ref :: "int option list"

text \<open>Lines 141-148: the optional reversal of all five sequences, then the tuples.\<close>

definition finish :: "bool \<Rightarrow> locals2 \<Rightarrow> error + plan" where
  "finish swap_axes l =
     (case l of (shape, idx_xy, len_xy, em, rf) \<Rightarrow>
        and_then (if swap_axes then py_reversed shape else py_tuple shape)
          (\<lambda>shape'.
        and_then (if swap_axes then py_reversed rf else py_tuple rf)
          (\<lambda>rf'.
        and_then (if swap_axes then py_reversed em else py_tuple em)
          (\<lambda>em'.
            Inr \<lparr>panel_shape = shape',
                 var_idx_xy = (if swap_axes then rev idx_xy else idx_xy),
                 var_len_xy = (if swap_axes then rev len_xy else len_xy),
                 ens_mean = em', ref = rf'\<rparr>))))"

definition panel_daemon ::
  "int \<Rightarrow> int \<Rightarrow> int option \<Rightarrow> bool \<Rightarrow> bool \<Rightarrow> bool \<Rightarrow> error + plan" where
  "panel_daemon num_models num_lead_times ens_size plot_ens_mean include_ref swap_axes =
     and_then (assign_axes num_models num_lead_times ens_size plot_ens_mean include_ref)
       (\<lambda>l. and_then (rearrange plot_ens_mean include_ref l) (finish swap_axes))"

section \<open>The grid walk of \<^verbatim>\<open>FieldPlotter.plot\<close>\<close>

text \<open>
  What the walk reads from the plotter object and the call: the number of paths (one
  entry of \<^verbatim>\<open>path_features\<close> each), the model labels if given, the lead times, the
  member identifiers (\<^verbatim>\<open>np.atleast_1d(members)\<close>, a single \<^verbatim>\<open>None\<close> when no
  members were given) and the reference label. The arrays of field values belong to
  xarray; the walk is modelled up to the slice it asks for.
\<close>

record env =
  num_paths :: nat
  model_labels :: "string list option"
  lead_times :: "int list"
  members :: "int option list"
  ref_label :: string

text \<open>Decimal text of an integer, as an f-string prints it.\<close>

fun str_nat :: "nat \<Rightarrow> string" where
  "str_nat n =
     (if n < 10 then [char_of (48 + n)]
      else str_nat (n div 10) @ [char_of (48 + n mod 10)])"

definition str_int :: "int \<Rightarrow> string" where
  "str_int i = (if i < 0 then CHR ''-'' # str_nat (nat (- i)) else str_nat (nat i))"

text \<open>Lines 457-471: the three labelling closures and their list.\<close>

definition model_label :: "env \<Rightarrow> int \<Rightarrow> error + string" where
  "model_label E i =
     (case model_labels E of
        None \<Rightarrow> Inr (''model '' @ str_int i)
      | Some ls \<Rightarrow> if i \<ge> int (length ls) then Inr [] else py_getitem ls i)"

definition lt_label :: "env \<Rightarrow> int \<Rightarrow> error + string" where
  "lt_label E i =
     and_then (py_getitem (lead_times E) i)
       (\<lambda>t. Inr (''+'' @ str_int (6 * t) @ ''h''))"

definition member_label :: "env \<Rightarrow> int \<Rightarrow> error + string" where
  "member_label E i =
     and_then (py_getitem (members E) i)
       (\<lambda>member_id. Inr (''member '' @
           (case member_id of None \<Rightarrow> ''None'' | Some v \<Rightarrow> str_int v)))"

definition labels :: "env \<Rightarrow> nat \<Rightarrow> int \<Rightarrow> error + string" where
  "labels E d a =
     and_then (py_getitem [model_label E, lt_label E, member_label E] (int d))
       (\<lambda>f. f a)"

text \<open>Assignment to a list element; a position past the end raises IndexError.\<close>

definition py_setitem :: "'a list \<Rightarrow> nat \<Rightarrow> 'a \<Rightarrow> error + 'a list" where
  "py_setitem xs n v = (if n < length xs then Inr (xs[n := v]) else Inl IndexError)"

text \<open>
  What is handed to \<^verbatim>\<open>_plot_panel\<close> for one cell: which kind of panel it is, the
  model whose dataset is read (none for the reference data), the member (none when all
  members are averaged or the reference is read), the lead-time position and the two
  titles.
\<close>

datatype role = Ordinary | EnsMean | Reference

record panel =
  role :: role
  model :: "nat option"
  member :: "int option"
  lead :: int
  titlex :: "string option"
  titley :: "string option"

text \<open>
  The variables that live across iterations: the list \<^verbatim>\<open>idx\<close>, whether an ordinary
  panel has been drawn (only then \<^verbatim>\<open>lat_grid\<close>, \<^verbatim>\<open>lon_grid\<close>, \<^verbatim>\<open>lat\<close>,
  \<^verbatim>\<open>lon\<close> and \<^verbatim>\<open>resolution\<close> are bound), the model of the dataset bound to
  \<^verbatim>\<open>ds\<close> and the last value of \<^verbatim>\<open>label_y\<close>.
\<close>

record state =
  idx :: "int list"
  seen :: bool
  ds :: nat
  label_y :: "string option"

text \<open>
  Lines 479-487: the new \<^verbatim>\<open>idx\<close>, and whether the axes of this cell are deleted.
\<close>

definition select_idx :: "plan \<Rightarrow> int \<Rightarrow> int \<Rightarrow> int list \<Rightarrow> error + (int list \<times> bool)" where
  "select_idx P i j idx0 =
     (let k = panel_shape P ! 1 * i + j
      in if length (var_idx_xy P) = 1 then
           and_then (py_setitem idx0 (var_idx_xy P ! 0) k)
             (\<lambda>idx1. Inr (idx1, k \<ge> var_len_xy P ! 0))
         else if length (var_idx_xy P) < 2 then Inl IndexError
         else
           and_then (py_setitem idx0 (var_idx_xy P ! 0) i)
             (\<lambda>idx1. and_then (py_setitem idx1 (var_idx_xy P ! 1) j)
             (\<lambda>idx2. Inr (idx2, False))))"

text \<open>
  Lines 490-491 and 499-500: unpacking a position tuple into two names (a tuple of
  another length raises ValueError) and the test of the cell against it.
\<close>

definition slot_matches :: "int option list \<Rightarrow> int \<Rightarrow> int \<Rightarrow> error + bool" where
  "slot_matches pos i j =
     (if length pos = 2
      then Inr ((pos ! 0 = None \<or> pos ! 0 = Some i) \<and> (pos ! 1 = None \<or> pos ! 1 = Some j))
      else Inl (ValueError ''unpack''))"

text \<open>Lines 507-512: the titles of an ordinary panel.\<close>

definition axis_labels ::
  "env \<Rightarrow> plan \<Rightarrow> int \<Rightarrow> int \<Rightarrow> error + (string option \<times> string option)" where
  "axis_labels E P i j =
     (if length (var_idx_xy P) = 1 then
        and_then (labels E (var_idx_xy P ! 0) (panel_shape P ! 1 * i + j))
          (\<lambda>lx. Inr (Some lx, None))
      else
        and_then (if i = 0 then map_sum id Some (labels E (var_idx_xy P ! 1) j) else Inr None)
          (\<lambda>lx. and_then
                  (if j = 0 then map_sum id Some (labels E (var_idx_xy P ! 0) i) else Inr None)
          (\<lambda>ly. Inr (lx, ly))))"

text \<open>
  Lines 479-524, one iteration: the panel drawn at cell \<open>(i, j)\<close>, or \<open>None\<close> when its
  axes are deleted, and the variables afterwards.
\<close>

definition cell ::
  "env \<Rightarrow> bool \<Rightarrow> bool \<Rightarrow> plan \<Rightarrow> int \<Rightarrow> int \<Rightarrow> state \<Rightarrow> error + (panel option \<times> state)" where
  "cell E plot_ens_mean include_ref P i j s =
     and_then (select_idx P i j (idx s))
       (\<lambda>(idx1, deleted).
          let s1 = s\<lparr>idx := idx1\<rparr>
          in if deleted then Inr (None, s1)
          else
            and_then (if plot_ens_mean then slot_matches (ens_mean P) i j else Inr False)
              (\<lambda>is_mean.
                 if is_mean then
                   (if seen s1 then
                      Inr (Some \<lparr>role = EnsMean, model = Some (ds s1), member = None,
                                 lead = idx1 ! 1,
                                 titlex = (if i = 0 then Some ''ensemble mean'' else None),
                                 titley = label_y s1\<rparr>, s1)
                    else Inl UnboundLocalError)
                 else
                   and_then (if include_ref then slot_matches (ref P) i j else Inr False)
                     (\<lambda>is_ref.
                        if is_ref then
                          (if seen s1 then
                             Inr (Some \<lparr>role = Reference, model = None, member = None,
                                        lead = idx1 ! 1,
                                        titlex = (if i = 0 then Some (ref_label E) else None),
                                        titley = (if j = 0 then Some (ref_label E) else None)\<rparr>,
                                  s1\<lparr>label_y := (if j = 0 then Some (ref_label E) else None)\<rparr>)
                           else Inl UnboundLocalError)
                        else
                          and_then (axis_labels E P i j)
                            (\<lambda>(lx, ly).
                               and_then (py_getitem [0..<num_paths E] (idx1 ! 0))
                                 (\<lambda>m. Inr (Some \<lparr>role = Ordinary, model = Some m,
                                                  member = Some (idx1 ! 2), lead = idx1 ! 1,
                                                  titlex = lx, titley = ly\<rparr>,
                                            s1\<lparr>seen := True, ds := m, label_y := ly\<rparr>))))))"

text \<open>
  Lines 477-478: the cells in row-major order. The walk stops at the first exception.
\<close>

definition cells :: "plan \<Rightarrow> (int \<times> int) list" where
  "cells P = List.product [0..panel_shape P ! 0 - 1] [0..panel_shape P ! 1 - 1]"

fun walk ::
  "env \<Rightarrow> bool \<Rightarrow> bool \<Rightarrow> plan \<Rightarrow> (int \<times> int) list \<Rightarrow> state
     \<Rightarrow> error + ((int \<times> int) \<times> panel option) list" where
  "walk E plot_ens_mean include_ref P [] s = Inr []"
| "walk E plot_ens_mean include_ref P (c # cs) s =
     and_then (cell E plot_ens_mean include_ref P (fst c) (snd c) s)
       (\<lambda>(p, s1). and_then (walk E plot_ens_mean include_ref P cs s1)
       (\<lambda>ps. Inr ((c, p) # ps)))"

definition plot_panels ::
  "env \<Rightarrow> bool \<Rightarrow> bool \<Rightarrow> plan \<Rightarrow> error + ((int \<times> int) \<times> panel option) list" where
  "plot_panels E plot_ens_mean include_ref P =
     walk E plot_ens_mean include_ref P (cells P)
       \<lparr>idx = [0, 0, 0], seen = False, ds = num_paths E - 1, label_y = None\<rparr>"

section \<open>The whole of \<^verbatim>\<open>FieldPlotter.plot\<close>\<close>

text \<open>
  Around the walk, \<^verbatim>\<open>plot\<close> calls out of the module: the units of the field are
  looked up in \<^verbatim>\<open>map_keys\<close> (line 410), the reference is loaded (line 421) and its
  field array read (lines 427-428), the field array of every model is read for the
  colour scale (lines 431-432), the colour norm, the map projection and the figure are
  made (lines 437-439, 448-453, 455), and the figure is finished (line 525). Each of
  these calls is an action. What an action does is decided outside the module, so the
  model takes it as given whether the action returns or which exception it raises, and
  it records the actions run, in order.
\<close>

datatype action =
    Lookup_units
  | Load_reference
  | Read_reference
  | Read_field nat
  | Make_norm
  | Make_projection
  | Make_figure
  | Process_fig

type_synonym outside = "action \<Rightarrow> error option"

text \<open>
  The arguments of \<^verbatim>\<open>plot\<close> that decide what it does up to the walk; the walk itself
  reads the lead times and the reference label from the plotter.
\<close>

record args =
  ref_units :: string
  file_ref :: "string option"
  plot_ens_mean :: bool
  norm :: bool
  swap_axes :: bool

text \<open>
  A statement before the walk is an action, or a test inside the module that raises or
  passes.
\<close>

datatype step = Act action | Check "error option"

text \<open>
  Lines 410-453 in order. The \<^verbatim>\<open>else\<close> branch of line 416 formats a name,
  \<^verbatim>\<open>latlon_units\<close>, that is not bound in \<^verbatim>\<open>plot\<close>, which raises NameError.
  With a reference, line 421 subscripts \<^verbatim>\<open>self.path_features[0]\<close>, and
  \<^verbatim>\<open>_get_ref_features\<close> takes \<^verbatim>\<open>max(self.lead_times)\<close> (line 344) before it
  loads anything. Line 447 subscripts \<^verbatim>\<open>self.path_features[0]\<close> again.
\<close>

definition before_layout :: "env \<Rightarrow> args \<Rightarrow> step list" where
  "before_layout E A =
     [Act Lookup_units,
      Check (if ref_units A = ''rad'' \<or> ref_units A = ''deg'' then None else Some NameError)]
     @ (if file_ref A \<noteq> None
        then [Check (if num_paths E = 0 then Some IndexError else None),
              Check (if lead_times E = []
                     then Some (ValueError ''max() arg is an empty sequence'') else None),
              Act Load_reference,
              Act Read_reference]
        else [])
     @ map (\<lambda>path_idx. Act (Read_field path_idx)) [0..<num_paths E]
     @ (if norm A then [Act Make_norm] else [])
     @ [Check (if num_paths E = 0 then Some IndexError else None),
        Act Make_projection]"

text \<open>
  Running statements in order: the actions run so far, and the exception that ended the
  run, if one did. An action that raises has been run.
\<close>

fun run_steps :: "outside \<Rightarrow> step list \<Rightarrow> action list \<Rightarrow> action list \<times> error option" where
  "run_steps out [] log = (log, None)"
| "run_steps out (Check c # rest) log =
     (case c of Some e \<Rightarrow> (log, Some e) | None \<Rightarrow> run_steps out rest log)"
| "run_steps out (Act a # rest) log =
     (case out a of
        Some e \<Rightarrow> (log @ [a], Some e)
      | None \<Rightarrow> run_steps out rest (log @ [a]))"

text \<open>
  \<^verbatim>\<open>plot\<close>: the statements before the layout, the daemon with the number of paths,
  of lead times and of members (line 454), the figure (line 455), the walk, and
  \<^verbatim>\<open>_process_fig\<close> (line 525), whose argument \<^verbatim>\<open>im\<close> is bound only if the walk
  drew a panel. The result is the list of actions run and either the exception raised
  or the cells of the walk.
\<close>

definition plot ::
  "outside \<Rightarrow> env \<Rightarrow> args
     \<Rightarrow> action list \<times> (error + ((int \<times> int) \<times> panel option) list)" where
  "plot out E A =
     (case run_steps out (before_layout E A) [] of
        (log, Some e) \<Rightarrow> (log, Inl e)
      | (log, None) \<Rightarrow>
          (case panel_daemon (int (num_paths E)) (int (length (lead_times E)))
                  (Some (int (length (members E))))
                  (plot_ens_mean A) (file_ref A \<noteq> None) (swap_axes A) of
             Inl e \<Rightarrow> (log, Inl e)
           | Inr P \<Rightarrow>
               (case out Make_figure of
                  Some e \<Rightarrow> (log @ [Make_figure], Inl e)
                | None \<Rightarrow>
                    (case plot_panels E (plot_ens_mean A) (file_ref A \<noteq> None) P of
                       Inl e \<Rightarrow> (log @ [Make_figure], Inl e)
                     | Inr cs \<Rightarrow>
                         if list_all (\<lambda>c. snd c = None) cs
                         then (log @ [Make_figure], Inl UnboundLocalError)
                         else
                           (case out Process_fig of
                              Some e \<Rightarrow> (log @ [Make_figure, Process_fig], Inl e)
                            | None \<Rightarrow> (log @ [Make_figure, Process_fig], Inr cs))))))"

text \<open>
  The transposition of a plan in the words of the specification (4.1, step 8): the roles
  of x and y exchanged in the shape, the axis assignment, the axis lengths, the position
  of the ensemble mean and the position of the reference. A sequence of two entries is
  \<open>(x, y)\<close>; a sequence of one entry has nothing to exchange; the position of the mean
  before a rearrangement has three entries, \<open>(all panels, x, y)\<close> (lines 66-68).
\<close>

definition swap_xy :: "'a list \<Rightarrow> 'a list" where
  "swap_xy s = (case s of [x, y] \<Rightarrow> [y, x] | _ \<Rightarrow> s)"

definition transposed :: "plan \<Rightarrow> plan" where
  "transposed P =
     \<lparr>panel_shape = swap_xy (panel_shape P),
      var_idx_xy = swap_xy (var_idx_xy P),
      var_len_xy = swap_xy (var_len_xy P),
      ens_mean = (case ens_mean P of [a, x, y] \<Rightarrow> [a, y, x] | s \<Rightarrow> swap_xy s),
      ref = swap_xy (ref P)\<rparr>"

text \<open>
  The precondition of the specification, "only one dimension may exceed length 1 before
  synthetic slots", in its words: of the number of models, the number of lead times and
  the ensemble size, at most one is greater than one.
\<close>

definition one_active :: "int list \<Rightarrow> bool" where
  "one_active lens = (length (filter (\<lambda>x. 1 < x) lens) \<le> 1)"

section \<open>Loading a forecast: \<^verbatim>\<open>get_data\<close>\<close>

text \<open>
  \<^verbatim>\<open>get_data\<close> works on xarray datasets. A dataset is modelled by what the function
  reads and changes: the dimensions with their sizes, in axis order; the coordinate
  labels of dimensions; and the variables, each with the unit conversions applied to the
  stored values so far (the values themselves are floating-point arrays and stay in the
  file). The dimensions of the files are taken as unlabelled, so that datasets are
  concatenated only when their other dimensions agree.
\<close>

datatype unit_op = Minus_273_15 | Times_1000 | Div_100

record dataset =
  dims :: "(string \<times> nat) list"
  coords :: "(string \<times> int list) list"
  variables :: "(string \<times> unit_op list) list"

text \<open>
  The file system: what \<^verbatim>\<open>glob\<close> returns for a pattern and what
  \<^verbatim>\<open>xr.open_dataset\<close> returns for a file name.
\<close>

record world =
  glob :: "string \<Rightarrow> string list"
  open_dataset :: "string \<Rightarrow> error + dataset"

definition endswith :: "string \<Rightarrow> string \<Rightarrow> bool" where
  "endswith s suffix =
     (length suffix \<le> length s \<and> drop (length s - length suffix) s = suffix)"

text \<open>
  \<^verbatim>\<open>Dataset.expand_dims(name)\<close>: a new first axis of size one; a name already in use
  raises ValueError.
\<close>

definition expand_dims :: "string \<Rightarrow> dataset \<Rightarrow> error + dataset" where
  "expand_dims name d =
     (if name \<in> fst ` set (dims d) \<or> name \<in> fst ` set (coords d)
         \<or> name \<in> fst ` set (variables d)
      then Inl (ValueError ''dimension already exists'')
      else Inr (d\<lparr>dims := (name, 1) # dims d\<rparr>))"

text \<open>
  \<^verbatim>\<open>Dataset.assign_coords(name=vals)\<close>: the labels of a dimension; their number has
  to be the size of the dimension, and an unknown name becomes a new dimension.
\<close>

definition assign_coords :: "string \<Rightarrow> int list \<Rightarrow> dataset \<Rightarrow> error + dataset" where
  "assign_coords name vals d =
     (case map_of (dims d) name of
        None \<Rightarrow> Inr (d\<lparr>dims := dims d @ [(name, length vals)],
                        coords := (name, vals) # coords d\<rparr>)
      | Some n \<Rightarrow>
          if n = length vals
          then Inr (d\<lparr>coords := (name, vals) # filter (\<lambda>c. fst c \<noteq> name) (coords d)\<rparr>)
          else Inl (ValueError ''conflicting sizes''))"

definition size_along :: "string \<Rightarrow> dataset \<Rightarrow> nat" where
  "size_along name d = (case map_of (dims d) name of None \<Rightarrow> 0 | Some n \<Rightarrow> n)"

definition labels_along :: "string \<Rightarrow> dataset \<Rightarrow> int list" where
  "labels_along name d = (case map_of (coords d) name of None \<Rightarrow> [] | Some c \<Rightarrow> c)"

text \<open>
  \<^verbatim>\<open>xr.concat(dss, dim=name)\<close> for datasets that all have the dimension: an empty
  list raises ValueError, as do datasets that differ in their other dimensions or in
  their variables; otherwise the sizes along the dimension add up and its labels are
  joined, in the order of the list.
\<close>

definition concat_along :: "string \<Rightarrow> dataset list \<Rightarrow> error + dataset" where
  "concat_along name dss =
     (case dss of
        [] \<Rightarrow> Inl (ValueError ''must supply at least one object to concatenate'')
      | d # rest \<Rightarrow>
          if list_all (\<lambda>x. map fst (dims x) = map fst (dims d)
                          \<and> filter (\<lambda>p. fst p \<noteq> name) (dims x)
                              = filter (\<lambda>p. fst p \<noteq> name) (dims d)
                          \<and> name \<in> fst ` set (dims x)
                          \<and> variables x = variables d) dss
          then Inr \<lparr>dims = map (\<lambda>p. if fst p = name
                                     then (name, sum_list (map (size_along name) dss))
                                     else p) (dims d),
                    coords = (name, concat (map (labels_along name) dss))
                               # filter (\<lambda>c. fst c \<noteq> name) (coords d),
                    variables = variables d\<rparr>
          else Inl (ValueError ''cannot align''))"

text \<open>
  \<^verbatim>\<open>ds.expand_dims('members').assign_coords(members=[i])\<close>, lines 47, 52 and 65.
\<close>

definition with_member :: "int \<Rightarrow> dataset \<Rightarrow> error + dataset" where
  "with_member i d = and_then (expand_dims ''members'' d) (assign_coords ''members'' [i])"

text \<open>
  Lines 69-74: a variable that is present is replaced by its converted values; the
  arithmetic keeps the dimensions.
\<close>

definition convert :: "string \<Rightarrow> unit_op \<Rightarrow> dataset \<Rightarrow> dataset" where
  "convert name op d =
     d\<lparr>variables :=
         map (\<lambda>v. if fst v = name then (name, snd v @ [op]) else v) (variables d)\<rparr>"

definition convert_units :: "dataset \<Rightarrow> dataset" where
  "convert_units d =
     convert ''air_pressure_at_sea_level'' Div_100
       (convert ''precipitation_amount_acc6h'' Times_1000
         (convert ''air_temperature_2m'' Minus_273_15 d))"

text \<open>
  Lines 57-63, the loop over \<^verbatim>\<open>range(ens_size)\<close>: the first file that matches the
  pattern of member \<open>i\<close> is opened; no match raises the exception of line 61.
\<close>

fun load_members ::
  "world \<Rightarrow> string \<Rightarrow> string \<Rightarrow> string \<Rightarrow> int list \<Rightarrow> error + dataset list" where
  "load_members w path time file_prefix [] = Inr []"
| "load_members w path time file_prefix (i # rest) =
     (case glob w (path @ str_int i @ ''/'' @ file_prefix @ ''*'' @ time @ ''.nc'') of
        [] \<Rightarrow> Inl (Exception (''No inference file found for time stamp '' @ time
                               @ '', member '' @ str_int i))
      | filename # _ \<Rightarrow>
          and_then (open_dataset w filename)
            (\<lambda>d. and_then (load_members w path time file_prefix rest)
            (\<lambda>datasets. Inr (d # datasets))))"

text \<open>Line 65: the comprehension over \<^verbatim>\<open>enumerate(datasets)\<close>.\<close>

fun with_members :: "int \<Rightarrow> dataset list \<Rightarrow> error + dataset list" where
  "with_members i [] = Inr []"
| "with_members i (d # rest) =
     and_then (with_member i d)
       (\<lambda>d1. and_then (with_members (i + 1) rest) (\<lambda>rest1. Inr (d1 # rest1)))"

text \<open>
  \<^verbatim>\<open>get_data\<close>, with \<open>time\<close> the text that \<^verbatim>\<open>strftime\<close> returns for the time stamp.
\<close>

definition get_data ::
  "world \<Rightarrow> string \<Rightarrow> string \<Rightarrow> int option \<Rightarrow> string \<Rightarrow> error + dataset" where
  "get_data w path time ens_size file_prefix =
     and_then
       (if endswith path ''.nc'' then and_then (open_dataset w path) (with_member 1)
        else case ens_size of
          None \<Rightarrow>
            (case glob w (path @ ''*'' @ time @ ''.nc'') of
               [] \<Rightarrow> Inl IndexError
             | filename # _ \<Rightarrow> and_then (open_dataset w filename) (with_member 1))
        | Some n \<Rightarrow>
            and_then (load_members w path time file_prefix [0..n - 1])
              (\<lambda>datasets. and_then (with_members 0 datasets) (concat_along ''members'')))
       (\<lambda>d. Inr (convert_units d))"

section \<open>Facts about the daemon\<close>

lemma argsort3:
  "argsort [a, b, c] =
     (if a \<le> b
      then (if b \<le> c then [0, 1, 2] else if a \<le> c then [0, 2, 1] else [2, 0, 1])
      else (if a \<le> c then [1, 0, 2] else if b \<le> c then [1, 2, 0] else [2, 1, 0]))"
  by (simp add: argsort_def upt_rec numeral_3_eq_3)

lemma length_argsort: "length (argsort v) = length v"
  by (simp add: argsort_def)

lemma argsort3_tail:
  "drop 1 (argsort [a, b, c]) \<in> {[1, 2], [2, 1], [0, 2], [2, 0], [0, 1], [1, 0]}"
  by (simp add: argsort3)

lemmas daemon_defs =
  panel_daemon_def assign_axes_def rearrange_def finish_def and_then_def
  num_members_of_def ens_size_of_def ens_mean_init_def ref_dim_of_def conf_map_def
  panel_limit_def py_getitem_def py_tuple_def py_reversed_def conf_map_at_def argsort3
  Let_def

lemma conf_map_entry:
  assumes "1 \<le> k" "k \<le> 16"
  shows "\<exists>r c. py_getitem conf_map k = Inr (Some [r, c]) \<and> 1 \<le> r \<and> 1 \<le> c"
proof -
  from assms have "k \<in> set [1..16]" by simp
  then have "k = 1 \<or> k = 2 \<or> k = 3 \<or> k = 4 \<or> k = 5 \<or> k = 6 \<or> k = 7 \<or> k = 8
      \<or> k = 9 \<or> k = 10 \<or> k = 11 \<or> k = 12 \<or> k = 13 \<or> k = 14 \<or> k = 15 \<or> k = 16"
    by (simp add: upto.simps)
  then show ?thesis
    by (elim disjE) (simp_all add: py_getitem_def conf_map_def)
qed

lemma conf_map_at_entry:
  assumes "1 \<le> k" "k \<le> 16"
  shows "\<exists>t. conf_map_at (Some k) = Inr (Some t)"
  using conf_map_entry [OF assms] by (auto simp: conf_map_at_def)

subsection \<open>The three stages, read backwards from a result\<close>

lemma assign_axes_error:
  "assign_axes m l e pm ir = Inl err \<longleftrightarrow>
     (0 \<in> set [m, l, num_members_of e pm]
        \<and> err = AssertionError ''Cannot deal with zero dimension'')
     \<or> (0 \<notin> set [m, l, num_members_of e pm] \<and> 1 \<notin> set [m, l, num_members_of e pm]
        \<and> err = AssertionError ''At least one dimension needs length 1'')"
  by (auto simp: assign_axes_def Let_def)

lemma assign_axes_Inr:
  assumes "assign_axes m l e pm ir = Inr (shape, xy, len, em, rf)"
  shows "xy = drop 1 (argsort [m, l, num_members_of e pm])"
    and "em = ens_mean_init xy (num_members_of e pm) pm"
    and "len = shape"
    and "rf = (if ir then [None, None][ref_dim_of xy :=
                 Some (map (\<lambda>i. [m, l, num_members_of e pm] ! i) xy ! ref_dim_of xy)]
               else [None, None])"
    and "1 \<in> set [m, l, num_members_of e pm]"
    and "length shape = 2"
  using assms
  by (auto simp: assign_axes_def Let_def length_argsort split: if_splits)

lemma rearrange_error:
  "rearrange pm ir l = Inl e \<Longrightarrow>
     e = ValueError ''Panel limit reached!'' \<or> e = TypeError \<or> e = IndexError"
  by (cases l)
     (auto simp: rearrange_def and_then_def conf_map_at_def py_getitem_def
           split: if_splits sum.splits option.splits)

lemma rearrange_Inr:
  assumes "rearrange pm ir (shape, xy, len, em, rf) = Inr (shape', xy', len', em', rf')"
  shows "(\<not> Min (set shape) < 2 \<and> shape' = Some shape \<and> xy' = xy \<and> len' = len
            \<and> em' = Some em \<and> rf' = Some rf)
       \<or> (Min (set shape) < 2 \<and> shape ! 1 \<le> panel_limit \<and> xy' = drop 1 xy
            \<and> len' = drop 1 shape
            \<and> (if pm then conf_map_at (last em) = Inr em' else em' = Some em)
            \<and> (if ir then conf_map_at (last rf) = Inr rf' else rf' = Some rf)
            \<and> py_getitem conf_map (last shape) = Inr shape')"
  using assms
  by (auto simp: rearrange_def and_then_def split: if_splits sum.splits)

lemma finish_error: "finish sw l = Inl e \<Longrightarrow> e = TypeError"
  by (cases l)
     (auto simp: finish_def and_then_def py_reversed_def py_tuple_def
           split: if_splits sum.splits option.splits)

lemma finish_Inr:
  assumes "finish False (shape', xy', len', em', rf') = Inr P"
  shows "shape' = Some (panel_shape P)" "xy' = var_idx_xy P" "len' = var_len_xy P"
        "em' = Some (ens_mean P)" "rf' = Some (ref P)"
  using assms
  by (auto simp: finish_def and_then_def py_tuple_def split: option.splits)

lemma panel_daemon_Inr:
  assumes "panel_daemon m l e pm ir False = Inr P"
  obtains shape xy len em rf where
    "assign_axes m l e pm ir = Inr (shape, xy, len, em, rf)"
    "rearrange pm ir (shape, xy, len, em, rf) =
       Inr (Some (panel_shape P), var_idx_xy P, var_len_xy P, Some (ens_mean P), Some (ref P))"
proof -
  from assms obtain loc l2 where a: "assign_axes m l e pm ir = Inr loc"
    and r: "rearrange pm ir loc = Inr l2" and f: "finish False l2 = Inr P"
    by (auto simp: panel_daemon_def and_then_def split: sum.splits)
  obtain shape xy len em rf where loc: "loc = (shape, xy, len, em, rf)"
    by (cases loc) auto
  obtain s' x' l' e' r' where l2: "l2 = (s', x', l', e', r')"
    by (cases l2) auto
  from finish_Inr [OF f [unfolded l2]] r a loc l2 that show thesis by simp
qed

subsection \<open>The last two stages, forwards from a shape\<close>

lemma rearranged_ok:
  assumes "Min (set [y, x]) < 2" "1 \<le> x" "x \<le> 16"
    and "pm \<Longrightarrow> \<exists>v. last em = Some v \<and> 1 \<le> v \<and> v \<le> 16"
    and "ir \<Longrightarrow> \<exists>v. last rf = Some v \<and> 1 \<le> v \<and> v \<le> 16"
  shows "\<exists>P. and_then (rearrange pm ir ([y, x], xy, len, em, rf)) (finish sw) = Inr P
           \<and> length (panel_shape P) = 2 \<and> 1 \<le> panel_shape P ! 0 \<and> 1 \<le> panel_shape P ! 1"
proof -
  obtain r c where rc: "py_getitem conf_map x = Inr (Some [r, c])" "1 \<le> r" "1 \<le> c"
    using conf_map_entry [OF assms(2,3)] by blast
  have em: "\<exists>t. (if pm then conf_map_at (last em) else Inr (Some em)) = Inr (Some t)"
    using assms(4) conf_map_at_entry by (cases pm) auto
  have rf: "\<exists>t. (if ir then conf_map_at (last rf) else Inr (Some rf)) = Inr (Some t)"
    using assms(5) conf_map_at_entry by (cases ir) auto
  from em rf rc assms(1,3) show ?thesis
    by (cases sw)
       (auto simp: rearrange_def finish_def and_then_def panel_limit_def conf_map_def
                   py_tuple_def py_reversed_def)
qed

lemma rearranged_limit:
  assumes "Min (set [y, x]) < 2" "16 < x"
  shows "and_then (rearrange pm ir ([y, x], xy, len, em, rf)) (finish sw)
           = Inl (ValueError ''Panel limit reached!'')"
  using assms
  by (auto simp: rearrange_def and_then_def panel_limit_def conf_map_def min_def
           split: if_splits)

lemma kept_ok:
  assumes "\<not> Min (set [y, x]) < 2"
  shows "\<exists>P. and_then (rearrange pm ir ([y, x], xy, len, em, rf)) (finish sw) = Inr P
           \<and> length (panel_shape P) = 2 \<and> 1 \<le> panel_shape P ! 0 \<and> 1 \<le> panel_shape P ! 1"
  using assms
  by (cases sw)
     (auto simp: rearrange_def finish_def and_then_def py_tuple_def py_reversed_def)

subsection \<open>Exchanging x and y\<close>

lemma swap_xy_rev: "length s \<le> 2 \<Longrightarrow> swap_xy s = rev s"
  by (auto simp: swap_xy_def split: list.splits)

lemma conf_map_pairs:
  assumes "py_getitem conf_map k = Inr (Some t)"
  shows "length t = 2"
proof -
  have every: "\<forall>x\<in>set conf_map. \<forall>u. x = Some u \<longrightarrow> length u = 2"
    by (simp add: conf_map_def)
  from assms consider
      "0 \<le> k" "k < int (length conf_map)" "conf_map ! nat k = Some t"
    | "k < 0" "- int (length conf_map) \<le> k"
      "conf_map ! nat (int (length conf_map) + k) = Some t"
    by (auto simp: py_getitem_def split: if_splits)
  then have "Some t \<in> set conf_map"
  proof cases
    case 1
    then have "nat k < length conf_map" by linarith
    with 1(3) show ?thesis by (metis nth_mem)
  next
    case 2
    then have "nat (int (length conf_map) + k) < length conf_map" by linarith
    with 2(3) show ?thesis by (metis nth_mem)
  qed
  with every show ?thesis by blast
qed

lemma conf_map_at_pairs:
  assumes "conf_map_at k = Inr (Some t)"
  shows "length t = 2"
proof -
  from assms obtain i u where "py_getitem conf_map i = Inr (Some u)" "t = map Some u"
    by (cases k; cases "py_getitem conf_map (the k)")
       (auto simp: conf_map_at_def split: option.splits)
  with conf_map_pairs [of i u] show ?thesis by simp
qed

lemma finish_swap_error: "finish True l = Inl e \<longleftrightarrow> finish False l = Inl e"
  by (cases l)
     (auto simp: finish_def and_then_def py_reversed_def py_tuple_def
           split: option.splits)

lemma finish_swap_Inr:
  assumes "finish False l = Inr P"
  shows "finish True l =
           Inr \<lparr>panel_shape = rev (panel_shape P), var_idx_xy = rev (var_idx_xy P),
                var_len_xy = rev (var_len_xy P), ens_mean = rev (ens_mean P),
                ref = rev (ref P)\<rparr>"
  using assms
  by (cases l)
     (auto simp: finish_def and_then_def py_reversed_def py_tuple_def
           split: option.splits)

lemma plan_lengths:
  assumes "panel_daemon m l e pm ir False = Inr P"
  shows "length (panel_shape P) = 2" and "length (var_idx_xy P) \<le> 2"
    and "length (var_len_xy P) \<le> 2" and "length (ref P) = 2"
    and "\<not> pm \<Longrightarrow> ens_mean P = [None, None, None]"
proof -
  from assms obtain shape xy len em rf where
    a: "assign_axes m l e pm ir = Inr (shape, xy, len, em, rf)" and
    r: "rearrange pm ir (shape, xy, len, em, rf) =
       Inr (Some (panel_shape P), var_idx_xy P, var_len_xy P, Some (ens_mean P), Some (ref P))"
    by (rule panel_daemon_Inr)
  have xy: "length xy = 2"
    using assign_axes_Inr(1) [OF a] by (simp add: length_argsort)
  have shape: "length shape = 2" "len = shape"
    using assign_axes_Inr(6) [OF a] assign_axes_Inr(3) [OF a] by simp_all
  have rf: "length rf = 2"
    using assign_axes_Inr(4) [OF a] by (simp split: if_splits nat.splits)
  have em: "\<not> pm \<Longrightarrow> em = [None, None, None]"
    using assign_axes_Inr(2) [OF a] by (simp add: ens_mean_init_def)
  note cases = rearrange_Inr [OF r]
  from cases shape show "length (panel_shape P) = 2"
    by (auto dest: conf_map_pairs)
  from cases xy show "length (var_idx_xy P) \<le> 2"
    by auto
  from cases shape show "length (var_len_xy P) \<le> 2"
    by auto
  from cases rf show "length (ref P) = 2"
    by (auto dest: conf_map_at_pairs split: if_splits)
  from cases em show "\<not> pm \<Longrightarrow> ens_mean P = [None, None, None]"
    by (auto split: if_splits)
qed

text \<open>
  What \<^verbatim>\<open>swap_axes\<close> does exchange: the same exception is raised with and without
  it, and in a returned plan the shape, the axis assignment, the axis lengths and the
  position of the reference have x and y exchanged; without the ensemble mean the whole
  plan is the transposed one.
\<close>

lemma swap_axes_same_error:
  "panel_daemon m l e pm ir True = Inl err \<longleftrightarrow> panel_daemon m l e pm ir False = Inl err"
  by (auto simp: panel_daemon_def and_then_def finish_swap_error split: sum.splits)

lemma swap_axes_exchanges:
  assumes "panel_daemon m l e pm ir False = Inr P"
  shows "\<exists>Q. panel_daemon m l e pm ir True = Inr Q
           \<and> panel_shape Q = swap_xy (panel_shape P)
           \<and> var_idx_xy Q = swap_xy (var_idx_xy P)
           \<and> var_len_xy Q = swap_xy (var_len_xy P)
           \<and> ref Q = swap_xy (ref P)
           \<and> (\<not> pm \<longrightarrow> Q = transposed P)"
proof -
  from assms obtain l2 where f: "finish False l2 = Inr P"
    and t: "panel_daemon m l e pm ir True = finish True l2"
    by (auto simp: panel_daemon_def and_then_def split: sum.splits)
  note len = plan_lengths [OF assms]
  from finish_swap_Inr [OF f] t len show ?thesis
    by (auto simp: swap_xy_rev transposed_def)
qed

subsection \<open>The position of the ensemble mean\<close>

text \<open>
  After line 106, for an ensemble of \<open>k\<close> members with its mean: ensemble is one of the
  two axes and the position of the mean along it is \<open>k\<close>.
\<close>

lemma ens_mean_slot_assigned:
  assumes "assign_axes m l (Some k) True ir = Inr (shape, xy, len, em, rf)" "1 \<le> k"
  shows "(xy ! 0 = 2 \<and> em = [None, Some k, None])
       \<or> (xy ! 1 = 2 \<and> em = [None, None, Some k])"
proof -
  let ?n = "num_members_of (Some k) True"
  have n: "?n = k + 1"
    by (simp add: num_members_of_def ens_size_of_def)
  have xyd: "xy = drop 1 (argsort [m, l, ?n])"
    by (rule assign_axes_Inr(1) [OF assms(1)])
  have xy: "xy \<in> {[1, 2], [2, 1], [0, 2], [2, 0], [0, 1], [1, 0]}"
    using xyd argsort3_tail by simp
  have em: "em = ens_mean_init xy ?n True"
    by (rule assign_axes_Inr(2) [OF assms(1)])
  have one: "1 \<in> set [m, l, ?n]"
    by (rule assign_axes_Inr(5) [OF assms(1)])
  from one n assms(2) xyd have "xy ! 0 = 2 \<or> xy ! 1 = 2"
    by (auto simp: argsort3 split: if_splits)
  with em n xy show ?thesis
    by (auto simp: ens_mean_init_def)
qed

text \<open>
  In a returned plan with two axes the position is still \<open>k\<close> along the ensemble axis,
  and in a returned plan without an ensemble axis the entry for all panels is set.
\<close>

lemma ens_mean_slot_two_axes:
  assumes "panel_daemon m l e True ir False = Inr P"
  shows "(e = Some k \<and> 1 \<le> k \<and> length (var_idx_xy P) = 2 \<longrightarrow>
            (var_idx_xy P ! 0 = 2 \<and> ens_mean P = [None, Some k, None])
          \<or> (var_idx_xy P ! 1 = 2 \<and> ens_mean P = [None, None, Some k]))
       \<and> (2 \<notin> set (var_idx_xy P) \<longrightarrow> ens_mean P = [Some 0, None, None])"
proof -
  from assms obtain shape xy len em rf where
    a: "assign_axes m l e True ir = Inr (shape, xy, len, em, rf)" and
    r: "rearrange True ir (shape, xy, len, em, rf) =
       Inr (Some (panel_shape P), var_idx_xy P, var_len_xy P, Some (ens_mean P), Some (ref P))"
    by (rule panel_daemon_Inr)
  let ?n = "num_members_of e True"
  have xyd: "xy = drop 1 (argsort [m, l, ?n])"
    by (rule assign_axes_Inr(1) [OF a])
  have xy: "xy \<in> {[1, 2], [2, 1], [0, 2], [2, 0], [0, 1], [1, 0]}"
    using xyd argsort3_tail by simp
  have em: "em = ens_mean_init xy ?n True"
    by (rule assign_axes_Inr(2) [OF a])
  have one: "1 \<in> set [m, l, ?n]"
    by (rule assign_axes_Inr(5) [OF a])
  have p1: "(var_idx_xy P ! 0 = 2 \<and> ens_mean P = [None, Some k, None])
          \<or> (var_idx_xy P ! 1 = 2 \<and> ens_mean P = [None, None, Some k])"
    if e: "e = Some k" and k: "1 \<le> k" and len2: "length (var_idx_xy P) = 2"
  proof -
    from e have n: "?n = k + 1"
      by (simp add: num_members_of_def ens_size_of_def)
    from one n k xyd have "xy ! 0 = 2 \<or> xy ! 1 = 2"
      by (auto simp: argsort3 split: if_splits)
    moreover from rearrange_Inr [OF r] len2 xy
    have "var_idx_xy P = xy" "ens_mean P = em"
      by auto
    ultimately show ?thesis
      using em n xy by (auto simp: ens_mean_init_def)
  qed
  have p2: "ens_mean P = [Some 0, None, None]" if no: "2 \<notin> set (var_idx_xy P)"
    using rearrange_Inr [OF r]
  proof (elim disjE conjE)
    assume "var_idx_xy P = xy" "Some (ens_mean P) = Some em"
    with no em xy show ?thesis by (auto simp: ens_mean_init_def)
  next
    assume d: "var_idx_xy P = drop 1 xy"
      and "if True then conf_map_at (last em) = Inr (Some (ens_mean P))
           else Some (ens_mean P) = Some em"
    then have "last em \<noteq> None"
      by (auto simp: conf_map_at_def split: option.splits)
    with em xy d no show ?thesis by (auto simp: ens_mean_init_def)
  qed
  from p1 p2 show ?thesis by blast
qed

subsection \<open>A call that the claims leave aside\<close>

text \<open>
  Plotting the ensemble mean only (no members given) in a one-dimensional layout: the
  position of the mean is 0, entry 0 of the table is \<^verbatim>\<open>None\<close>, and line 148 raises
  TypeError on it.
\<close>

lemma mean_only_type_error: "panel_daemon 1 1 None True False False = Inl TypeError"
  by (simp add: daemon_defs)

section \<open>Facts about the statements before the layout\<close>

lemma run_steps_append:
  "run_steps out (xs @ ys) log =
     (case run_steps out xs log of
        (log1, None) \<Rightarrow> run_steps out ys log1
      | (log1, Some e) \<Rightarrow> (log1, Some e))"
proof (induction xs arbitrary: log)
  case Nil
  then show ?case by simp
next
  case (Cons s xs)
  then show ?case
    by (cases s) (auto split: option.splits)
qed

lemma run_steps_reads:
  "run_steps Map.empty (map (\<lambda>p. Act (Read_field p)) ps) log = (log @ map Read_field ps, None)"
  by (induction ps arbitrary: log) auto

lemma before_layout_quiet:
  assumes "0 < num_paths E" "ref_units A = ''rad'' \<or> ref_units A = ''deg''"
    and "file_ref A \<noteq> None \<Longrightarrow> lead_times E \<noteq> []"
  shows "run_steps Map.empty (before_layout E A) [] =
           ([Lookup_units]
            @ (if file_ref A \<noteq> None then [Load_reference, Read_reference] else [])
            @ map Read_field [0..<num_paths E]
            @ (if norm A then [Make_norm] else [])
            @ [Make_projection], None)"
  using assms
  by (auto simp: before_layout_def run_steps_append run_steps_reads)

section \<open>Facts about the grid walk\<close>

lemmas walk_defs =
  plot_panels_def cells_def cell_def select_idx_def slot_matches_def axis_labels_def
  labels_def model_label_def lt_label_def member_label_def py_setitem_def
  and_then_def py_getitem_def Let_def

lemma upto_small:
  "[0..1::int] = [0, 1]" "[0..2::int] = [0, 1, 2]" "[0..3::int] = [0, 1, 2, 3]"
  by (simp_all add: upto.simps)

section \<open>Facts about loading\<close>

lemma with_member_Inr:
  assumes "with_member i d = Inr d1"
  shows "dims d1 = (''members'', 1) # dims d"
    and "coords d1 = (''members'', [i]) # filter (\<lambda>c. fst c \<noteq> ''members'') (coords d)"
    and "variables d1 = variables d"
  using assms
  by (auto simp: with_member_def expand_dims_def assign_coords_def and_then_def
           split: if_splits)

lemma convert_units_keeps:
  "dims (convert_units d) = dims d" "coords (convert_units d) = coords d"
  by (simp_all add: convert_units_def convert_def)

lemma load_members_length:
  "load_members w path time file_prefix is = Inr dss \<Longrightarrow> length dss = length is"
  by (induction "is" arbitrary: dss)
     (auto simp: and_then_def split: list.splits sum.splits)

lemma with_members_Inr:
  "with_members i dss = Inr ms \<Longrightarrow>
     length ms = length dss
     \<and> sum_list (map (size_along ''members'') ms) = length dss
     \<and> concat (map (labels_along ''members'') ms) = [i..i + int (length dss) - 1]
     \<and> (\<forall>x\<in>set ms. \<exists>rest. dims x = (''members'', 1) # rest)"
proof (induction dss arbitrary: i ms)
  case Nil
  then show ?case by simp
next
  case (Cons d rest)
  from Cons.prems obtain d1 rest1 where d1: "with_member i d = Inr d1"
    and r: "with_members (i + 1) rest = Inr rest1" and ms: "ms = d1 # rest1"
    by (auto simp: and_then_def split: sum.splits)
  from Cons.IH [OF r] with_member_Inr [OF d1] ms show ?case
    by (auto simp: size_along_def labels_along_def upto.simps [of i] algebra_simps)
qed

lemma concat_along_Inr:
  assumes "concat_along name (m # ms) = Inr d" "dims m = (name, s) # rest"
  shows "dims d = (name, sum_list (map (size_along name) (m # ms)))
           # map (\<lambda>p. if fst p = name
                       then (name, sum_list (map (size_along name) (m # ms))) else p) rest"
    and "map_of (coords d) name = Some (concat (map (labels_along name) (m # ms)))"
  using assms
  by (auto simp: concat_along_def split: if_splits)

section \<open>The claims\<close>

text \<open>
  C1 as stated: for at least one model and one lead time, with at most one of the
  three dimensions longer than one, the daemon returns. It does not: one model and
  seventeen lead times need a one-dimensional layout of seventeen panels, and line 131
  raises \<^verbatim>\<open>ValueError("Panel limit reached!")\<close>.
\<close>

theorem daemon_always_returns_counterexample:
  "1 \<le> (1::int) \<and> 1 \<le> (17::int) \<and> one_active [1, 17, ens_size_of None False]
   \<and> panel_daemon 1 17 None False False False = Inl (ValueError ''Panel limit reached!'')"
  by (simp add: daemon_defs one_active_def)

text \<open>
  C1, amended. For at least one model, one lead time and one member (an unset ensemble
  size counting as one member, and not combined with the ensemble mean), with at most
  one of the three longer than one, the daemon either returns a shape of two entries,
  both at least 1, or raises \<^verbatim>\<open>ValueError("Panel limit reached!")\<close>; it returns
  whenever the longest of the three lengths, member slots and the reference slot
  included, is at most 16. This holds with and without \<^verbatim>\<open>swap_axes\<close>.
\<close>

theorem daemon_returns_or_limit:
  assumes "1 \<le> m" "1 \<le> l" "1 \<le> ens_size_of e pm"
    and "one_active [m, l, ens_size_of e pm]"
  shows "((\<exists>P. panel_daemon m l e pm ir sw = Inr P \<and> length (panel_shape P) = 2
              \<and> 1 \<le> panel_shape P ! 0 \<and> 1 \<le> panel_shape P ! 1)
          \<or> panel_daemon m l e pm ir sw = Inl (ValueError ''Panel limit reached!''))
       \<and> (max m (max l (num_members_of e pm)) + (if ir then 1 else 0) \<le> 16
            \<longrightarrow> (\<exists>P. panel_daemon m l e pm ir sw = Inr P))"
proof -
  define k where "k = ens_size_of e pm"
  define n where "n = num_members_of e pm"
  have n: "n = k + (if pm then 1 else 0)"
    by (simp add: n_def k_def num_members_of_def)
  have k1: "1 \<le> k" using assms(3) by (simp add: k_def)
  from assms(1,2,4) k1 consider
      (flat) "m = 1" "l = 1"
    | (leads) "m = 1" "1 < l" "k = 1"
    | (models) "l = 1" "1 < m" "k = 1"
    unfolding k_def [symmetric] one_active_def by (auto split: if_splits)
  then have "\<exists>y x em rf xy.
      assign_axes m l e pm ir = Inr ([y, x], xy, [y, x], em, rf)
      \<and> 1 \<le> x \<and> x \<le> max m (max l n) + (if ir then 1 else 0)
      \<and> (Min (set [y, x]) < 2 \<longrightarrow>
            (pm \<longrightarrow> (\<exists>v. last em = Some v \<and> 1 \<le> v \<and> v \<le> x))
          \<and> (ir \<longrightarrow> (\<exists>v. last rf = Some v \<and> 1 \<le> v \<and> v \<le> x)))"
  proof cases
    case flat
    with k1 n show ?thesis
      by (auto simp: assign_axes_def n_def [symmetric] argsort3 ens_mean_init_def
                     ref_dim_of_def Let_def)
  next
    case leads
    with k1 n show ?thesis
      by (auto simp: assign_axes_def n_def [symmetric] argsort3 ens_mean_init_def
                     ref_dim_of_def Let_def)
  next
    case models
    with k1 n show ?thesis
      by (auto simp: assign_axes_def n_def [symmetric] argsort3 ens_mean_init_def
                     ref_dim_of_def Let_def)
  qed
  then obtain y x em rf xy where
    a: "assign_axes m l e pm ir = Inr ([y, x], xy, [y, x], em, rf)"
    and x1: "1 \<le> x" and xmax: "x \<le> max m (max l n) + (if ir then 1 else 0)"
    and slots:
      "Min (set [y, x]) < 2 \<Longrightarrow> pm \<Longrightarrow> \<exists>v. last em = Some v \<and> 1 \<le> v \<and> v \<le> x"
      "Min (set [y, x]) < 2 \<Longrightarrow> ir \<Longrightarrow> \<exists>v. last rf = Some v \<and> 1 \<le> v \<and> v \<le> x"
    by blast
  have pd: "panel_daemon m l e pm ir sw =
      and_then (rearrange pm ir ([y, x], xy, [y, x], em, rf)) (finish sw)"
    using a by (simp add: panel_daemon_def and_then_def)
  show ?thesis
  proof (cases "Min (set [y, x]) < 2")
    case False
    from kept_ok [OF False] pd show ?thesis by metis
  next
    case True
    show ?thesis
    proof (cases "x \<le> 16")
      case le: True
      have "\<exists>v. last em = Some v \<and> 1 \<le> v \<and> v \<le> 16" if pm
        using slots(1) [OF True that] le by fastforce
      moreover have "\<exists>v. last rf = Some v \<and> 1 \<le> v \<and> v \<le> 16" if ir
        using slots(2) [OF True that] le by fastforce
      ultimately show ?thesis
        using rearranged_ok [OF True x1 le, of pm em ir rf xy "[y, x]" sw] pd by metis
    next
      case False
      then have "16 < x" by simp
      from rearranged_limit [OF True this] pd xmax \<open>16 < x\<close> show ?thesis
        by (simp add: n_def)
    qed
  qed
qed

theorem daemon_returns_or_limit_witness:
  "1 \<le> (1::int) \<and> 1 \<le> (7::int) \<and> 1 \<le> ens_size_of None False
   \<and> one_active [1, 7, ens_size_of None False]
   \<and> (\<exists>P. panel_daemon 1 7 None False False False = Inr P)"
proof -
  have h1: "1 \<le> (1::int)" and h2: "1 \<le> (7::int)" by simp_all
  have h3: "1 \<le> ens_size_of None False" by (simp add: ens_size_of_def)
  have h4: "one_active [1, 7, ens_size_of None False]"
    by (simp add: one_active_def ens_size_of_def)
  from daemon_returns_or_limit [OF h1 h2 h3 h4, of False False]
  have "\<exists>P. panel_daemon 1 7 None False False False = Inr P"
    by (simp add: num_members_of_def ens_size_of_def)
  with h1 h2 h3 h4 show ?thesis by blast
qed

text \<open>
  C2 as stated: the returned shape would be \<open>(1, 3)\<close>. It is not.
\<close>

theorem boundary_one_by_three_counterexample:
  "map_sum id panel_shape (panel_daemon 1 3 None False False False) \<noteq> Inr [1, 3]"
  by (simp add: daemon_defs)

text \<open>
  C2, amended. With one model, three lead times, no ensemble, no mean and no reference
  the two longest dimensions give the shape \<open>(1, 3)\<close> before line 121; its minimum is
  below 2, so the rearrangement runs and the daemon returns entry 3 of the table,
  \<open>(2, 2)\<close>, with lead time as the only axis and 3 as its length.
\<close>

theorem boundary_one_by_three:
  "assign_axes 1 3 None False False =
     Inr ([1, 3], [2, 1], [1, 3], [None, None, None], [None, None])
   \<and> Min (set [1, 3 :: int]) < 2
   \<and> panel_daemon 1 3 None False False False =
     Inr \<lparr>panel_shape = [2, 2], var_idx_xy = [1], var_len_xy = [3],
          ens_mean = [None, None, None], ref = [None, None]\<rparr>"
  by (simp add: daemon_defs)

text \<open>
  C3. With one model, seven lead times, no ensemble, no mean and no reference the shape
  before line 121 is \<open>(1, 7)\<close>, so the layout is rearranged: entry 7 of the table is
  \<open>(2, 4)\<close>, and the daemon returns it with lead time as the only axis and 7 as its
  length. The walk over this grid visits eight cells and deletes the axes of exactly
  one, the last cell \<open>(1, 3)\<close> with linear index 7; every other cell is drawn.
\<close>

theorem collapse_of_seven:
  assumes "num_paths E = 1" "length (lead_times E) = 7"
  shows "assign_axes 1 7 None False False =
           Inr ([1, 7], [2, 1], [1, 7], [None, None, None], [None, None])
       \<and> py_getitem conf_map 7 = Inr (Some [2, 4])
       \<and> panel_daemon 1 7 None False False False =
           Inr \<lparr>panel_shape = [2, 4], var_idx_xy = [1], var_len_xy = [7],
                ens_mean = [None, None, None], ref = [None, None]\<rparr>
       \<and> (\<exists>cs. plot_panels E False False
                 \<lparr>panel_shape = [2, 4], var_idx_xy = [1], var_len_xy = [7],
                  ens_mean = [None, None, None], ref = [None, None]\<rparr> = Inr cs
             \<and> map fst cs = [(0, 0), (0, 1), (0, 2), (0, 3), (1, 0), (1, 1), (1, 2), (1, 3)]
             \<and> (\<forall>c\<in>set cs. snd c = None \<longleftrightarrow> fst c = (1, 3)))"
proof (intro conjI)
  show "assign_axes 1 7 None False False =
           Inr ([1, 7], [2, 1], [1, 7], [None, None, None], [None, None])"
    by (simp add: daemon_defs)
  show "py_getitem conf_map 7 = Inr (Some [2, 4])"
    by (simp add: py_getitem_def conf_map_def)
  show "panel_daemon 1 7 None False False False =
           Inr \<lparr>panel_shape = [2, 4], var_idx_xy = [1], var_len_xy = [7],
                ens_mean = [None, None, None], ref = [None, None]\<rparr>"
    by (simp add: daemon_defs)
  show "\<exists>cs. plot_panels E False False
                 \<lparr>panel_shape = [2, 4], var_idx_xy = [1], var_len_xy = [7],
                  ens_mean = [None, None, None], ref = [None, None]\<rparr> = Inr cs
             \<and> map fst cs = [(0, 0), (0, 1), (0, 2), (0, 3), (1, 0), (1, 1), (1, 2), (1, 3)]
             \<and> (\<forall>c\<in>set cs. snd c = None \<longleftrightarrow> fst c = (1, 3))"
    using assms by (simp add: walk_defs upto_small upt_rec split: option.splits)
qed

theorem collapse_of_seven_witness:
  "\<exists>cs. plot_panels
          \<lparr>num_paths = 1, model_labels = None, lead_times = [0, 4, 8, 12, 16, 20, 24],
           members = [None], ref_label = ''ref''\<rparr> False False
          \<lparr>panel_shape = [2, 4], var_idx_xy = [1], var_len_xy = [7],
           ens_mean = [None, None, None], ref = [None, None]\<rparr> = Inr cs
        \<and> map fst cs = [(0, 0), (0, 1), (0, 2), (0, 3), (1, 0), (1, 1), (1, 2), (1, 3)]
        \<and> (\<forall>c\<in>set cs. snd c = None \<longleftrightarrow> fst c = (1, 3))"
  using collapse_of_seven
    [of "\<lparr>num_paths = 1, model_labels = None, lead_times = [0, 4, 8, 12, 16, 20, 24],
          members = [None], ref_label = ''ref''\<rparr>"]
  by simp

text \<open>
  C4. With two models, four lead times, a reference and no ensemble (the ensemble size
  unset or 1) the daemon returns the shape \<open>(3, 4)\<close> with model on the rows and lead
  time on the columns and the reference at row 2, whatever the column; the walk draws
  the reference in the cells of row 2 and in no other. In general, when the daemon
  returns for a call with a reference and two axes, the axis that carries the reference
  position is not the lead-time axis; when it returns a single axis, that axis is not
  lead time either.
\<close>

theorem reference_along_model_axis:
  "panel_daemon 2 4 None False True False =
     Inr \<lparr>panel_shape = [3, 4], var_idx_xy = [0, 1], var_len_xy = [3, 4],
          ens_mean = [None, None, None], ref = [Some 2, None]\<rparr>
   \<and> panel_daemon 2 4 (Some 1) False True False =
     Inr \<lparr>panel_shape = [3, 4], var_idx_xy = [0, 1], var_len_xy = [3, 4],
          ens_mean = [None, None, None], ref = [Some 2, None]\<rparr>
   \<and> (num_paths E = 2 \<and> length (lead_times E) = 4 \<longrightarrow>
        (\<exists>cs. plot_panels E False True
                 \<lparr>panel_shape = [3, 4], var_idx_xy = [0, 1], var_len_xy = [3, 4],
                  ens_mean = [None, None, None], ref = [Some 2, None]\<rparr> = Inr cs
            \<and> map fst cs = [(0, 0), (0, 1), (0, 2), (0, 3), (1, 0), (1, 1), (1, 2), (1, 3),
                             (2, 0), (2, 1), (2, 2), (2, 3)]
            \<and> (\<forall>c\<in>set cs. \<exists>q. snd c = Some q
                   \<and> (role q = Reference \<longleftrightarrow> fst (fst c) = 2))))
   \<and> (panel_daemon m l e pm True False = Inr P \<longrightarrow>
        (length (var_idx_xy P) = 2
           \<and> ((\<exists>r. ref P = [Some r, None] \<and> var_idx_xy P ! 0 \<noteq> 1)
              \<or> (\<exists>c. ref P = [None, Some c] \<and> var_idx_xy P ! 1 \<noteq> 1)))
        \<or> (length (var_idx_xy P) = 1 \<and> var_idx_xy P ! 0 \<noteq> 1))"
proof (intro conjI impI)
  show "panel_daemon 2 4 None False True False =
     Inr \<lparr>panel_shape = [3, 4], var_idx_xy = [0, 1], var_len_xy = [3, 4],
          ens_mean = [None, None, None], ref = [Some 2, None]\<rparr>"
    by (simp add: daemon_defs)
  show "panel_daemon 2 4 (Some 1) False True False =
     Inr \<lparr>panel_shape = [3, 4], var_idx_xy = [0, 1], var_len_xy = [3, 4],
          ens_mean = [None, None, None], ref = [Some 2, None]\<rparr>"
    by (simp add: daemon_defs)
next
  assume "num_paths E = 2 \<and> length (lead_times E) = 4"
  then show "\<exists>cs. plot_panels E False True
                 \<lparr>panel_shape = [3, 4], var_idx_xy = [0, 1], var_len_xy = [3, 4],
                  ens_mean = [None, None, None], ref = [Some 2, None]\<rparr> = Inr cs
            \<and> map fst cs = [(0, 0), (0, 1), (0, 2), (0, 3), (1, 0), (1, 1), (1, 2), (1, 3),
                             (2, 0), (2, 1), (2, 2), (2, 3)]
            \<and> (\<forall>c\<in>set cs. \<exists>q. snd c = Some q
                   \<and> (role q = Reference \<longleftrightarrow> fst (fst c) = 2))"
    by (simp add: walk_defs upto_small upt_rec split: option.splits)
next
  assume "panel_daemon m l e pm True False = Inr P"
  then obtain shape xy len em rf where
    a: "assign_axes m l e pm True = Inr (shape, xy, len, em, rf)" and
    r: "rearrange pm True (shape, xy, len, em, rf) =
       Inr (Some (panel_shape P), var_idx_xy P, var_len_xy P, Some (ens_mean P), Some (ref P))"
    by (rule panel_daemon_Inr)
  have xy: "xy \<in> {[1, 2], [2, 1], [0, 2], [2, 0], [0, 1], [1, 0]}"
    using assign_axes_Inr(1) [OF a] argsort3_tail by simp
  have rf: "rf = [None, None][ref_dim_of xy :=
                 Some (map (\<lambda>i. [m, l, num_members_of e pm] ! i) xy ! ref_dim_of xy)]"
    using assign_axes_Inr(4) [OF a] by simp
  from rearrange_Inr [OF r]
  show "(length (var_idx_xy P) = 2
           \<and> ((\<exists>r. ref P = [Some r, None] \<and> var_idx_xy P ! 0 \<noteq> 1)
              \<or> (\<exists>c. ref P = [None, Some c] \<and> var_idx_xy P ! 1 \<noteq> 1)))
        \<or> (length (var_idx_xy P) = 1 \<and> var_idx_xy P ! 0 \<noteq> 1)"
  proof (elim disjE conjE)
    assume "var_idx_xy P = xy" "Some (ref P) = Some rf"
    with xy rf show ?thesis by (auto simp: ref_dim_of_def)
  next
    assume d: "var_idx_xy P = drop 1 xy"
      and "if True then conf_map_at (last rf) = Inr (Some (ref P))
           else Some (ref P) = Some rf"
    then have "last rf \<noteq> None"
      by (auto simp: conf_map_at_def split: option.splits)
    with xy rf d show ?thesis by (auto simp: ref_dim_of_def)
  qed
qed

theorem reference_along_model_axis_witness:
  "(\<exists>cs. plot_panels
          \<lparr>num_paths = 2, model_labels = None, lead_times = [0, 4, 8, 12],
           members = [None], ref_label = ''MEPS''\<rparr> False True
          \<lparr>panel_shape = [3, 4], var_idx_xy = [0, 1], var_len_xy = [3, 4],
           ens_mean = [None, None, None], ref = [Some 2, None]\<rparr> = Inr cs
        \<and> map fst cs = [(0, 0), (0, 1), (0, 2), (0, 3), (1, 0), (1, 1), (1, 2), (1, 3),
                         (2, 0), (2, 1), (2, 2), (2, 3)]
        \<and> (\<forall>c\<in>set cs. \<exists>q. snd c = Some q \<and> (role q = Reference \<longleftrightarrow> fst (fst c) = 2)))
   \<and> panel_daemon 1 1 (Some 4) False True False =
       Inr \<lparr>panel_shape = [2, 3], var_idx_xy = [2], var_len_xy = [5],
            ens_mean = [None, None, None], ref = [Some 2, Some 2]\<rparr>
   \<and> [2::nat] ! 0 \<noteq> 1"
proof -
  have pd: "panel_daemon 1 1 (Some 4) False True False =
       Inr \<lparr>panel_shape = [2, 3], var_idx_xy = [2], var_len_xy = [5],
            ens_mean = [None, None, None], ref = [Some 2, Some 2]\<rparr>"
    by (simp add: daemon_defs)
  from reference_along_model_axis
    [of "\<lparr>num_paths = 2, model_labels = None, lead_times = [0, 4, 8, 12],
          members = [None], ref_label = ''MEPS''\<rparr>" 1 1 "Some 4" False
        "\<lparr>panel_shape = [2, 3], var_idx_xy = [2], var_len_xy = [5],
          ens_mean = [None, None, None], ref = [Some 2, Some 2]\<rparr>"] pd
  show ?thesis by simp
qed

text \<open>
  C5. The claim: with five members and the ensemble mean, the position of the mean
  along the ensemble axis is 5, the slot after the members \<open>0 .. 4\<close>. Lines 94-106
  assign exactly this position, also for one model and one lead time (lead time and
  ensemble are then the two axes, and the position is 5 along the second). In that
  call the layout is rearranged, and line 134 replaces the position by entry 5 of the
  table, \<open>(2, 3)\<close>; the returned grid has the shape \<open>(2, 3)\<close>, so no cell has row 2 and
  column 3. The walk draws no mean panel, takes the sixth cell for member 5 and raises
  IndexError when it labels it.
\<close>

theorem ens_mean_slot_rearranged:
  "assign_axes 1 1 (Some 5) True False =
     Inr ([1, 6], [1, 2], [1, 6], [None, None, Some 5], [None, None])
   \<and> panel_daemon 1 1 (Some 5) True False False =
     Inr \<lparr>panel_shape = [2, 3], var_idx_xy = [2], var_len_xy = [6],
          ens_mean = [Some 2, Some 3], ref = [None, None]\<rparr>
   \<and> plot_panels
       \<lparr>num_paths = 1, model_labels = None, lead_times = [0],
        members = [Some 0, Some 1, Some 2, Some 3, Some 4], ref_label = ''ref''\<rparr>
       True False
       \<lparr>panel_shape = [2, 3], var_idx_xy = [2], var_len_xy = [6],
        ens_mean = [Some 2, Some 3], ref = [None, None]\<rparr>
     = Inl IndexError"
proof (intro conjI)
  show "assign_axes 1 1 (Some 5) True False =
     Inr ([1, 6], [1, 2], [1, 6], [None, None, Some 5], [None, None])"
    by (simp add: daemon_defs)
  show "panel_daemon 1 1 (Some 5) True False False =
     Inr \<lparr>panel_shape = [2, 3], var_idx_xy = [2], var_len_xy = [6],
          ens_mean = [Some 2, Some 3], ref = [None, None]\<rparr>"
    by (simp add: daemon_defs)
  show "plot_panels
       \<lparr>num_paths = 1, model_labels = None, lead_times = [0],
        members = [Some 0, Some 1, Some 2, Some 3, Some 4], ref_label = ''ref''\<rparr>
       True False
       \<lparr>panel_shape = [2, 3], var_idx_xy = [2], var_len_xy = [6],
        ens_mean = [Some 2, Some 3], ref = [None, None]\<rparr>
     = Inl IndexError"
    by (simp add: walk_defs upto_small upt_rec)
qed

text \<open>
  C6 as stated: an invalid combination of lengths is refused before any data is touched.
  It is not. For three models, four lead times and two members \<^verbatim>\<open>plot\<close> looks the
  units up and reads the field array of each of the three models (lines 429-432) before
  line 454 calls the daemon, whose second assertion then fails.
\<close>

theorem invalid_dimension_counterexample:
  "plot Map.empty
     \<lparr>num_paths = 3, model_labels = None, lead_times = [0, 4, 8, 12],
      members = [Some 0, Some 1], ref_label = ''ref''\<rparr>
     \<lparr>ref_units = ''deg'', file_ref = None, plot_ens_mean = False, norm = False,
      swap_axes = False\<rparr>
   = ([Lookup_units, Read_field 0, Read_field 1, Read_field 2, Make_projection],
      Inl (AssertionError ''At least one dimension needs length 1''))"
  by (simp add: plot_def before_layout_def upt_rec daemon_defs)

text \<open>
  C6, amended. The daemon raises an AssertionError exactly when one of the three lengths
  (models, lead times, member slots) is zero or none of them is one. Three models, four
  lead times and two members fail with the second assertion, whatever the flags. The
  assertions come before every other statement of the daemon that can raise, so no
  other exception takes their place. \<^verbatim>\<open>plot\<close> calls the daemon after the statements
  of lines 410-453: when these pass, an exception of the daemon is raised after the
  units were looked up, the reference (if any) loaded and read, and the field array of
  every model read.
\<close>

theorem invalid_dimension_iff:
  "((\<exists>msg. panel_daemon m l e pm ir sw = Inl (AssertionError msg))
      \<longleftrightarrow> (0 \<in> set [m, l, num_members_of e pm] \<or> 1 \<notin> set [m, l, num_members_of e pm]))
   \<and> panel_daemon 3 4 (Some 2) pm ir sw =
       Inl (AssertionError ''At least one dimension needs length 1'')
   \<and> (0 < num_paths E \<and> (ref_units A = ''rad'' \<or> ref_units A = ''deg'')
         \<and> (file_ref A \<noteq> None \<longrightarrow> lead_times E \<noteq> [])
         \<and> panel_daemon (int (num_paths E)) (int (length (lead_times E)))
              (Some (int (length (members E))))
              (plot_ens_mean A) (file_ref A \<noteq> None) (swap_axes A) = Inl err
       \<longrightarrow> plot Map.empty E A =
             ([Lookup_units]
              @ (if file_ref A \<noteq> None then [Load_reference, Read_reference] else [])
              @ map Read_field [0..<num_paths E]
              @ (if norm A then [Make_norm] else [])
              @ [Make_projection], Inl err))"
proof (intro conjI iffI impI)
  assume "\<exists>msg. panel_daemon m l e pm ir sw = Inl (AssertionError msg)"
  then obtain msg where pd: "panel_daemon m l e pm ir sw = Inl (AssertionError msg)"
    by blast
  show "0 \<in> set [m, l, num_members_of e pm] \<or> 1 \<notin> set [m, l, num_members_of e pm]"
  proof (cases "assign_axes m l e pm ir")
    case (Inl err)
    then show ?thesis
      using assign_axes_error [of m l e pm ir err] by blast
  next
    case (Inr loc)
    show ?thesis
    proof (cases "rearrange pm ir loc")
      case (Inl err)
      with Inr pd have "err = AssertionError msg"
        by (simp add: panel_daemon_def and_then_def)
      with rearrange_error [OF Inl] show ?thesis by simp
    next
      case r: (Inr l2)
      with Inr pd have "finish sw l2 = Inl (AssertionError msg)"
        by (simp add: panel_daemon_def and_then_def)
      from finish_error [OF this] show ?thesis by simp
    qed
  qed
next
  assume "0 \<in> set [m, l, num_members_of e pm] \<or> 1 \<notin> set [m, l, num_members_of e pm]"
  then obtain err where "assign_axes m l e pm ir = Inl (AssertionError err)"
    using assign_axes_error [of m l e pm ir] by metis
  then show "\<exists>msg. panel_daemon m l e pm ir sw = Inl (AssertionError msg)"
    by (simp add: panel_daemon_def and_then_def)
next
  show "panel_daemon 3 4 (Some 2) pm ir sw =
          Inl (AssertionError ''At least one dimension needs length 1'')"
    by (simp add: daemon_defs)
next
  assume h: "0 < num_paths E \<and> (ref_units A = ''rad'' \<or> ref_units A = ''deg'')
         \<and> (file_ref A \<noteq> None \<longrightarrow> lead_times E \<noteq> [])
         \<and> panel_daemon (int (num_paths E)) (int (length (lead_times E)))
              (Some (int (length (members E))))
              (plot_ens_mean A) (file_ref A \<noteq> None) (swap_axes A) = Inl err"
  then have "run_steps Map.empty (before_layout E A) [] =
           ([Lookup_units]
            @ (if file_ref A \<noteq> None then [Load_reference, Read_reference] else [])
            @ map Read_field [0..<num_paths E]
            @ (if norm A then [Make_norm] else [])
            @ [Make_projection], None)"
    by (intro before_layout_quiet) auto
  with h show "plot Map.empty E A =
             ([Lookup_units]
              @ (if file_ref A \<noteq> None then [Load_reference, Read_reference] else [])
              @ map Read_field [0..<num_paths E]
              @ (if norm A then [Make_norm] else [])
              @ [Make_projection], Inl err)"
    by (simp add: plot_def)
qed

theorem invalid_dimension_iff_witness:
  "(\<exists>msg. panel_daemon 2 0 None False False False = Inl (AssertionError msg))
   \<and> 0 \<in> set [2, 0, num_members_of None False]
   \<and> \<not> (\<exists>msg. panel_daemon 2 3 None False False False = Inl (AssertionError msg))
   \<and> 1 \<in> set [2, 3, num_members_of None False]
   \<and> plot Map.empty
       \<lparr>num_paths = 2, model_labels = None, lead_times = [0, 4, 8],
        members = [Some 0, Some 1], ref_label = ''MEPS''\<rparr>
       \<lparr>ref_units = ''deg'', file_ref = Some ''meps.zarr'', plot_ens_mean = False,
        norm = True, swap_axes = False\<rparr>
     = ([Lookup_units, Load_reference, Read_reference, Read_field 0, Read_field 1,
         Make_norm, Make_projection],
        Inl (AssertionError ''At least one dimension needs length 1''))"
proof -
  let ?E = "\<lparr>num_paths = 2, model_labels = None, lead_times = [0, 4, 8],
             members = [Some 0, Some 1], ref_label = ''MEPS''\<rparr>"
  let ?A = "\<lparr>ref_units = ''deg'', file_ref = Some ''meps.zarr'', plot_ens_mean = False,
             norm = True, swap_axes = False\<rparr>"
  have pd: "panel_daemon (int (num_paths ?E)) (int (length (lead_times ?E)))
              (Some (int (length (members ?E))))
              (plot_ens_mean ?A) (file_ref ?A \<noteq> None) (swap_axes ?A)
            = Inl (AssertionError ''At least one dimension needs length 1'')"
    by (simp add: daemon_defs)
  from invalid_dimension_iff [of 2 0 None False False False]
       invalid_dimension_iff [of 2 3 None False False False]
       invalid_dimension_iff [of 1 1 None False False False ?E ?A
                                 "AssertionError ''At least one dimension needs length 1''"]
       pd
  show ?thesis
    by (simp add: num_members_of_def ens_size_of_def upt_rec)
qed

text \<open>
  C7. The claim: the plan returned with \<^verbatim>\<open>swap_axes=True\<close> is the plan returned
  without it, transposed. For two models, one lead time, five members and the ensemble
  mean the plan without the swap has model and ensemble as axes and the mean at
  position 5 along y. Line 146 reverses the three entries \<open>(all panels, x, y)\<close> of the
  position instead of exchanging x and y, so with the swap the 5 stands in the entry
  for all panels, where the transposed plan has it along x.
\<close>

theorem swap_axes_reverses_mean:
  "panel_daemon 2 1 (Some 5) True False False =
     Inr \<lparr>panel_shape = [2, 6], var_idx_xy = [0, 2], var_len_xy = [2, 6],
          ens_mean = [None, None, Some 5], ref = [None, None]\<rparr>
   \<and> panel_daemon 2 1 (Some 5) True False True =
     Inr \<lparr>panel_shape = [6, 2], var_idx_xy = [2, 0], var_len_xy = [6, 2],
          ens_mean = [Some 5, None, None], ref = [None, None]\<rparr>
   \<and> transposed \<lparr>panel_shape = [2, 6], var_idx_xy = [0, 2], var_len_xy = [2, 6],
                 ens_mean = [None, None, Some 5], ref = [None, None]\<rparr> =
     \<lparr>panel_shape = [6, 2], var_idx_xy = [2, 0], var_len_xy = [6, 2],
      ens_mean = [None, Some 5, None], ref = [None, None]\<rparr>"
  by (simp add: daemon_defs transposed_def swap_xy_def)

text \<open>
  C8. Two models and three lead times, without ensemble mean and reference, give the
  shape \<open>(2, 3)\<close> with model on the rows and lead time on the columns. The walk draws
  all six cells; a cell has a top title exactly when its row is 0 and a left title
  exactly when its column is 0, and \<^verbatim>\<open>None\<close> otherwise.
\<close>

theorem edge_labels:
  assumes "num_paths E = 2" "length (lead_times E) = 3"
  shows "panel_daemon 2 3 None False False False =
       Inr \<lparr>panel_shape = [2, 3], var_idx_xy = [0, 1], var_len_xy = [2, 3],
            ens_mean = [None, None, None], ref = [None, None]\<rparr>
   \<and> (\<exists>cs. plot_panels E False False
             \<lparr>panel_shape = [2, 3], var_idx_xy = [0, 1], var_len_xy = [2, 3],
              ens_mean = [None, None, None], ref = [None, None]\<rparr> = Inr cs
        \<and> map fst cs = [(0, 0), (0, 1), (0, 2), (1, 0), (1, 1), (1, 2)]
        \<and> (\<forall>c\<in>set cs. \<exists>q. snd c = Some q
               \<and> (titlex q \<noteq> None \<longleftrightarrow> fst (fst c) = 0)
               \<and> (titley q \<noteq> None \<longleftrightarrow> snd (fst c) = 0)))"
proof
  show "panel_daemon 2 3 None False False False =
       Inr \<lparr>panel_shape = [2, 3], var_idx_xy = [0, 1], var_len_xy = [2, 3],
            ens_mean = [None, None, None], ref = [None, None]\<rparr>"
    by (simp add: daemon_defs)
  show "\<exists>cs. plot_panels E False False
             \<lparr>panel_shape = [2, 3], var_idx_xy = [0, 1], var_len_xy = [2, 3],
              ens_mean = [None, None, None], ref = [None, None]\<rparr> = Inr cs
        \<and> map fst cs = [(0, 0), (0, 1), (0, 2), (1, 0), (1, 1), (1, 2)]
        \<and> (\<forall>c\<in>set cs. \<exists>q. snd c = Some q
               \<and> (titlex q \<noteq> None \<longleftrightarrow> fst (fst c) = 0)
               \<and> (titley q \<noteq> None \<longleftrightarrow> snd (fst c) = 0))"
    using assms by (simp add: walk_defs upto_small upt_rec split: option.splits)
qed

theorem edge_labels_witness:
  "\<exists>cs. plot_panels
          \<lparr>num_paths = 2, model_labels = Some [''a'', ''b''], lead_times = [0, 4, 8],
           members = [None], ref_label = ''ref''\<rparr> False False
          \<lparr>panel_shape = [2, 3], var_idx_xy = [0, 1], var_len_xy = [2, 3],
           ens_mean = [None, None, None], ref = [None, None]\<rparr> = Inr cs
        \<and> map fst cs = [(0, 0), (0, 1), (0, 2), (1, 0), (1, 1), (1, 2)]
        \<and> (\<forall>c\<in>set cs. \<exists>q. snd c = Some q
               \<and> (titlex q \<noteq> None \<longleftrightarrow> fst (fst c) = 0)
               \<and> (titley q \<noteq> None \<longleftrightarrow> snd (fst c) = 0))"
  using edge_labels
    [of "\<lparr>num_paths = 2, model_labels = Some [''a'', ''b''], lead_times = [0, 4, 8],
          members = [None], ref_label = ''ref''\<rparr>"]
  by simp

text \<open>
  C9. Every entry of the packing table for a count from 1 to 16 is a pair
  \<open>(rows, cols)\<close> with at least as many cells as the count and no more rows than
  columns.
\<close>

theorem conf_map_holds_count:
  "\<forall>C\<in>{1..16}. \<exists>rows cols.
      py_getitem conf_map C = Inr (Some [rows, cols]) \<and> C \<le> rows * cols \<and> rows \<le> cols"
proof
  fix C :: int
  assume "C \<in> {1..16}"
  then have "C \<in> set [1..16]" by simp
  then have "C = 1 \<or> C = 2 \<or> C = 3 \<or> C = 4 \<or> C = 5 \<or> C = 6 \<or> C = 7 \<or> C = 8
      \<or> C = 9 \<or> C = 10 \<or> C = 11 \<or> C = 12 \<or> C = 13 \<or> C = 14 \<or> C = 15 \<or> C = 16"
    by (simp add: upto.simps)
  then show "\<exists>rows cols.
      py_getitem conf_map C = Inr (Some [rows, cols]) \<and> C \<le> rows * cols \<and> rows \<le> cols"
    by (elim disjE) (simp_all add: py_getitem_def conf_map_def)
qed

theorem conf_map_holds_count_witness:
  "(7::int) \<in> {1..16} \<and> py_getitem conf_map 7 = Inr (Some [2, 4]) \<and> (7::int) \<le> 2 * 4"
proof -
  have h: "(7::int) \<in> {1..16}" by simp
  from conf_map_holds_count h
  have "\<exists>rows cols. py_getitem conf_map 7 = Inr (Some [rows, cols])
           \<and> 7 \<le> rows * cols \<and> rows \<le> cols"
    by blast
  then show ?thesis by (simp add: py_getitem_def conf_map_def)
qed

text \<open>
  C10. Whenever \<^verbatim>\<open>get_data\<close> returns, the first dimension of the dataset is
  \<^verbatim>\<open>members\<close>. For a path that ends in \<^verbatim>\<open>.nc\<close> and for an unset ensemble size
  its size is 1 and its only label is 1; otherwise the ensemble size \<open>k\<close> is at least
  1, the size is \<open>k\<close> and the labels are \<open>0, ..., k - 1\<close> in this order.
\<close>

theorem get_data_members:
  assumes "get_data w path time ens_size file_prefix = Inr d"
  shows "\<exists>n rest. dims d = (''members'', n) # rest \<and>
     (if endswith path ''.nc'' \<or> ens_size = None
      then n = 1 \<and> map_of (coords d) ''members'' = Some [1]
      else \<exists>k. ens_size = Some k \<and> 1 \<le> k \<and> n = nat k
             \<and> map_of (coords d) ''members'' = Some [0..k - 1])"
proof (cases "endswith path ''.nc'' \<or> ens_size = None")
  case True
  with assms obtain d0 d1 where "with_member 1 d0 = Inr d1" "d = convert_units d1"
    by (auto simp: get_data_def and_then_def split: sum.splits list.splits if_splits)
  with with_member_Inr [of 1 d0 d1] True show ?thesis
    by (simp add: convert_units_keeps)
next
  case False
  then obtain k where k: "ens_size = Some k" and nc: "\<not> endswith path ''.nc''"
    by auto
  with assms obtain dss ms d1 where
    l: "load_members w path time file_prefix [0..k - 1] = Inr dss"
    and m: "with_members 0 dss = Inr ms" and c: "concat_along ''members'' ms = Inr d1"
    and d: "d = convert_units d1"
    by (auto simp: get_data_def and_then_def split: sum.splits)
  from c obtain m0 ms0 where ms: "ms = m0 # ms0"
    by (cases ms) (auto simp: concat_along_def)
  note wm = with_members_Inr [OF m]
  from wm ms obtain rest where r: "dims m0 = (''members'', 1) # rest"
    by auto
  have len: "length dss = length [0..k - 1]"
    by (rule load_members_length [OF l])
  from wm ms have "dss \<noteq> []" by auto
  with len have k1: "1 \<le> k" by (cases "1 \<le> k") auto
  then have lenk: "length dss = nat k" using len by simp
  from concat_along_Inr [OF c [unfolded ms] r] wm ms lenk k1 d k False show ?thesis
    by (simp add: convert_units_keeps)
qed

theorem get_data_members_witness:
  "get_data \<lparr>glob = (\<lambda>p. [p]),
             open_dataset = (\<lambda>f. Inr \<lparr>dims = [(''lead_times'', 3), (''points'', 4)],
                                        coords = [],
                                        variables = [(''air_temperature_2m'', [])]\<rparr>)\<rparr>
     ''run/'' ''2023-08-15T00'' (Some 2) []
   = Inr \<lparr>dims = [(''members'', 2), (''lead_times'', 3), (''points'', 4)],
          coords = [(''members'', [0, 1])],
          variables = [(''air_temperature_2m'', [Minus_273_15])]\<rparr>
   \<and> \<not> endswith ''run/'' ''.nc''
   \<and> map_of [(''members'', [0, 1 :: int])] ''members'' = Some [0..2 - 1]"
proof -
  have g: "get_data \<lparr>glob = (\<lambda>p. [p]),
             open_dataset = (\<lambda>f. Inr \<lparr>dims = [(''lead_times'', 3), (''points'', 4)],
                                        coords = [],
                                        variables = [(''air_temperature_2m'', [])]\<rparr>)\<rparr>
     ''run/'' ''2023-08-15T00'' (Some 2) []
   = Inr \<lparr>dims = [(''members'', 2), (''lead_times'', 3), (''points'', 4)],
          coords = [(''members'', [0, 1])],
          variables = [(''air_temperature_2m'', [Minus_273_15])]\<rparr>"
    by (simp add: get_data_def endswith_def and_then_def upto_small with_member_def
                  expand_dims_def assign_coords_def concat_along_def size_along_def
                  labels_along_def convert_units_def convert_def)
  from get_data_members [OF g] g show ?thesis
    by (simp add: endswith_def)
qed

end
